theory Spec2Isabelle
  imports Complex_Main
begin

section \<open>Data model (shared schema)\<close>

text \<open>
  The tables of the relational store, one record per row type. Field names are the
  column names of the schema, prefixed by the table (\<open>emp_\<close>, \<open>att_\<close>, \<open>ben_\<close>,
  \<open>pay_\<close>) because several tables share column names (\<open>id\<close>, \<open>employeeId\<close>,
  \<open>hoursWorked\<close>).

  Numbers: the storage layer converts every decimal column with \<open>Number(...)\<close> and
  computes with JavaScript numbers. They are modelled as exact rationals (\<open>rat\<close>), so
  \<open>0.045\<close> below is the rational 45/1000; the rounding of IEEE doubles, the rendering
  of a number by \<open>toString()\<close> and the rounding of the store's \<open>decimal(10,2)\<close> columns
  are outside the model. Timestamps are natural numbers. Of the bookkeeping columns
  \<open>createdAt\<close>, \<open>updatedAt\<close>, \<open>generatedAt\<close> only \<open>employees.updatedAt\<close> is kept:
  it is the only one that a modelled operation writes explicitly.
\<close>

record Employee =
  emp_id :: nat
  emp_name :: string
  emp_email :: string
  emp_position :: string
  emp_salaryRate :: rat
  emp_salaryType :: string
  emp_department :: "string option"
  emp_hireDate :: string
  emp_isActive :: bool
  emp_updatedAt :: nat

record Attendance =
  att_id :: nat
  att_employeeId :: nat
  att_date :: string
  att_hoursWorked :: rat
  att_overtime :: rat

record Benefit =
  ben_id :: nat
  ben_employeeId :: nat
  ben_type :: string
  ben_amount :: rat
  ben_isTaxable :: bool
  ben_appliesTo :: string
  ben_description :: "string option"

text \<open>\<open>InsertPayroll\<close> is the payroll row without its serial \<open>id\<close>; \<open>Payroll\<close> adds it.\<close>

record InsertPayroll =
  pay_employeeId :: nat
  pay_payPeriod :: string
  pay_hoursWorked :: rat
  pay_overtimeHours :: rat
  pay_basePay :: rat
  pay_overtimePay :: rat
  pay_allowances :: rat
  pay_bonuses :: rat
  pay_grossPay :: rat
  pay_sssDeduction :: rat
  pay_philHealthDeduction :: rat
  pay_pagIbigDeduction :: rat
  pay_taxDeduction :: rat
  pay_otherDeductions :: rat
  pay_totalDeductions :: rat
  pay_netPay :: rat

record Payroll = InsertPayroll +
  pay_id :: nat

text \<open>
  The store: the four tables as lists of rows, and the next value of the serial
  sequence of \<open>payroll.id\<close>.
\<close>

record db =
  employees :: "Employee list"
  attendance :: "Attendance list"
  benefits :: "Benefit list"
  payroll :: "Payroll list"
  payroll_id_seq :: nat

section \<open>Storage operations (class DatabaseStorage)\<close>

text \<open>
  Queries are filters over the table lists. \<open>ORDER BY\<close> clauses are not modelled: the
  order of rows depends on the store's collation and is unspecified on ties.
\<close>

definition getEmployees :: "db \<Rightarrow> Employee list" where
  "getEmployees d = filter emp_isActive (employees d)"

text \<open>\<open>getEmployee\<close> returns the first row with the id (\<open>const [employee] = ...\<close>), if any.\<close>

definition getEmployee :: "nat \<Rightarrow> db \<Rightarrow> Employee option" where
  "getEmployee i d = find (\<lambda>e. emp_id e = i) (employees d)"

text \<open>
  \<open>deleteEmployee\<close> is an \<open>UPDATE ... SET isActive = false, updatedAt = now WHERE id = ...\<close>;
  \<open>now\<close> stands for \<open>new Date()\<close>.
\<close>

definition deleteEmployee :: "nat \<Rightarrow> nat \<Rightarrow> db \<Rightarrow> db" where
  "deleteEmployee now i d =
     d\<lparr>employees :=
         map (\<lambda>e. if emp_id e = i then e\<lparr>emp_isActive := False, emp_updatedAt := now\<rparr> else e)
           (employees d)\<rparr>"

record MonthlyAttendance =
  totalHours :: rat
  overtimeHours :: rat

text \<open>
  The month test \<open>date_trunc('month', date) = payPeriod::date\<close> is evaluated by the
  store; it is the parameter \<open>inMonth\<close> (attendance date, pay period). An SQL \<open>sum\<close>
  over no rows is null, which \<open>Number(x || 0)\<close> turns into 0, as \<open>sum_list []\<close> is.
\<close>

definition getMonthlyAttendance ::
  "(string \<Rightarrow> string \<Rightarrow> bool) \<Rightarrow> nat \<Rightarrow> string \<Rightarrow> db \<Rightarrow> MonthlyAttendance" where
  "getMonthlyAttendance inMonth employeeId payPeriod d =
     (let result = filter (\<lambda>a. att_employeeId a = employeeId \<and> inMonth (att_date a) payPeriod)
                     (attendance d)
      in \<lparr>totalHours = sum_list (map att_hoursWorked result),
          overtimeHours = sum_list (map att_overtime result)\<rparr>)"

text \<open>
  JavaScript truthiness of the optional arguments of \<open>getBenefits\<close>: an absent
  argument, the number 0 and the empty string are falsy.
\<close>

fun truthy_number :: "nat option \<Rightarrow> bool" where
  "truthy_number None = False"
| "truthy_number (Some n) = (n \<noteq> 0)"

fun truthy_string :: "string option \<Rightarrow> bool" where
  "truthy_string None = False"
| "truthy_string (Some s) = (s \<noteq> [])"

definition getBenefits :: "nat option \<Rightarrow> string option \<Rightarrow> db \<Rightarrow> Benefit list" where
  "getBenefits employeeId payPeriod d =
     (if truthy_number employeeId \<and> truthy_string payPeriod then
        filter (\<lambda>b. Some (ben_employeeId b) = employeeId \<and> Some (ben_appliesTo b) = payPeriod)
          (benefits d)
      else if truthy_number employeeId then
        filter (\<lambda>b. Some (ben_employeeId b) = employeeId) (benefits d)
      else if truthy_string payPeriod then
        filter (\<lambda>b. Some (ben_appliesTo b) = payPeriod) (benefits d)
      else benefits d)"

text \<open>
  \<open>getEmployeePayroll\<close> selects the payroll rows of an employee and a period and
  returns the first one (\<open>const [payrollData] = ...\<close>), \<open>undefined\<close> when there is none.
\<close>

definition employeePayrollRows :: "nat \<Rightarrow> string \<Rightarrow> db \<Rightarrow> Payroll list" where
  "employeePayrollRows employeeId payPeriod d =
     filter (\<lambda>r. pay_employeeId r = employeeId \<and> pay_payPeriod r = payPeriod) (payroll d)"

definition getEmployeePayroll :: "nat \<Rightarrow> string \<Rightarrow> db \<Rightarrow> Payroll option" where
  "getEmployeePayroll employeeId payPeriod d =
     (case employeePayrollRows employeeId payPeriod d of
        [] \<Rightarrow> None
      | payrollData # _ \<Rightarrow> Some payrollData)"

text \<open>\<open>.reduce((sum, b) => sum + Number(b.amount), 0)\<close>\<close>

definition sum_amounts :: "Benefit list \<Rightarrow> rat" where
  "sum_amounts bs = foldl (\<lambda>sum b. sum + ben_amount b) 0 bs"

text \<open>The body of the loop of \<open>generatePayrollForPeriod\<close>: the record pushed for one employee.\<close>

definition payrollRecord ::
  "(string \<Rightarrow> string \<Rightarrow> bool) \<Rightarrow> string \<Rightarrow> db \<Rightarrow> Employee \<Rightarrow> InsertPayroll" where
  "payrollRecord inMonth payPeriod d employee =
     (let monthlyAttendance = getMonthlyAttendance inMonth (emp_id employee) payPeriod d;
          employeeBenefits = getBenefits (Some (emp_id employee)) (Some payPeriod) d;
          salaryRate = emp_salaryRate employee;
          basePay = (if emp_salaryType employee = ''hourly''
                     then salaryRate * totalHours monthlyAttendance
                     else salaryRate);
          overtimePay = (if emp_salaryType employee = ''hourly''
                         then salaryRate * 1.5 * overtimeHours monthlyAttendance
                         else 0);
          allowances = sum_amounts (filter (\<lambda>b. ben_type b = ''Allowance'') employeeBenefits);
          bonuses = sum_amounts
                      (filter (\<lambda>b. ben_type b \<in> set [''Bonus'', ''13th_month'']) employeeBenefits);
          grossPay = basePay + overtimePay + allowances + bonuses;
          sssDeduction = grossPay * 0.045;
          philHealthDeduction = grossPay * 0.045;
          pagIbigDeduction = min (grossPay * 0.02) 100;
          otherDeductions = sum_amounts (filter (\<lambda>b. ben_type b = ''Deduction'') employeeBenefits);
          totalDeductions = sssDeduction + philHealthDeduction + pagIbigDeduction + otherDeductions;
          netPay = grossPay - totalDeductions
      in \<lparr>pay_employeeId = emp_id employee,
          pay_payPeriod = payPeriod,
          pay_hoursWorked = totalHours monthlyAttendance,
          pay_overtimeHours = overtimeHours monthlyAttendance,
          pay_basePay = basePay,
          pay_overtimePay = overtimePay,
          pay_allowances = allowances,
          pay_bonuses = bonuses,
          pay_grossPay = grossPay,
          pay_sssDeduction = sssDeduction,
          pay_philHealthDeduction = philHealthDeduction,
          pay_pagIbigDeduction = pagIbigDeduction,
          pay_taxDeduction = 0,
          pay_otherDeductions = otherDeductions,
          pay_totalDeductions = totalDeductions,
          pay_netPay = netPay\<rparr>)"

text \<open>The \<open>for (const employee of activeEmployees)\<close> loop, pushing onto \<open>payrollRecords\<close>.\<close>

fun payrollLoop ::
  "(string \<Rightarrow> string \<Rightarrow> bool) \<Rightarrow> string \<Rightarrow> db \<Rightarrow> Employee list \<Rightarrow> InsertPayroll list
     \<Rightarrow> InsertPayroll list" where
  "payrollLoop inMonth payPeriod d [] payrollRecords = payrollRecords"
| "payrollLoop inMonth payPeriod d (employee # activeEmployees) payrollRecords =
     payrollLoop inMonth payPeriod d activeEmployees
       (payrollRecords @ [payrollRecord inMonth payPeriod d employee])"

text \<open>
  \<open>db.insert(payroll).values(...).returning()\<close>: every value gets the next serial id,
  the rows are appended to the table and returned.
\<close>

fun assignIds :: "nat \<Rightarrow> InsertPayroll list \<Rightarrow> Payroll list" where
  "assignIds n [] = []"
| "assignIds n (v # vs) = InsertPayroll.extend v (Payroll.fields n) # assignIds (Suc n) vs"

definition insertPayroll :: "InsertPayroll list \<Rightarrow> db \<Rightarrow> Payroll list \<times> db" where
  "insertPayroll vs d =
     (let rows = assignIds (payroll_id_seq d) vs
      in (rows, d\<lparr>payroll := payroll d @ rows,
                  payroll_id_seq := payroll_id_seq d + length vs\<rparr>))"

definition generatePayrollForPeriod ::
  "(string \<Rightarrow> string \<Rightarrow> bool) \<Rightarrow> string \<Rightarrow> db \<Rightarrow> Payroll list \<times> db" where
  "generatePayrollForPeriod inMonth payPeriod d =
     (let activeEmployees = getEmployees d;
          payrollRecords = payrollLoop inMonth payPeriod d activeEmployees []
      in insertPayroll payrollRecords d)"

section \<open>The route POST /api/payroll/generate\<close>






section \<open>Example data\<close>

text \<open>Attendance dates are ISO strings; in the examples the month of a date is its first seven characters.\<close>

definition monthPrefix :: "string \<Rightarrow> string \<Rightarrow> bool" where
  "monthPrefix date payPeriod = (take 7 date = payPeriod)"

definition ana :: Employee where
  "ana = \<lparr>emp_id = 101, emp_name = ''Ana'', emp_email = ''ana@example.com'',
          emp_position = ''Engineer'', emp_salaryRate = 500, emp_salaryType = ''hourly'',
          emp_department = None, emp_hireDate = ''2023-01-02'', emp_isActive = True,
          emp_updatedAt = 0\<rparr>"

definition ben :: Employee where
  "ben = \<lparr>emp_id = 102, emp_name = ''Ben'', emp_email = ''ben@example.com'',
          emp_position = ''Clerk'', emp_salaryRate = 30000, emp_salaryType = ''monthly'',
          emp_department = Some ''Admin'', emp_hireDate = ''2022-06-01'', emp_isActive = True,
          emp_updatedAt = 0\<rparr>"

definition cora :: Employee where
  "cora = \<lparr>emp_id = 103, emp_name = ''Cora'', emp_email = ''cora@example.com'',
           emp_position = ''Analyst'', emp_salaryRate = 1, emp_salaryType = ''monthly'',
           emp_department = None, emp_hireDate = ''2021-03-15'', emp_isActive = False,
           emp_updatedAt = 0\<rparr>"

definition exampleDb :: db where
  "exampleDb =
     \<lparr>employees = [ana, ben, cora],
      attendance =
        [\<lparr>att_id = 11, att_employeeId = 101, att_date = ''2024-01-10'',
          att_hoursWorked = 100, att_overtime = 4\<rparr>,
         \<lparr>att_id = 12, att_employeeId = 101, att_date = ''2024-01-11'',
          att_hoursWorked = 60, att_overtime = 6\<rparr>,
         \<lparr>att_id = 13, att_employeeId = 101, att_date = ''2024-02-01'',
          att_hoursWorked = 8, att_overtime = 1\<rparr>,
         \<lparr>att_id = 14, att_employeeId = 102, att_date = ''2024-01-10'',
          att_hoursWorked = 8, att_overtime = 2\<rparr>],
      benefits =
        [\<lparr>ben_id = 21, ben_employeeId = 102, ben_type = ''Allowance'', ben_amount = 2000,
          ben_isTaxable = False, ben_appliesTo = ''2024-01'', ben_description = None\<rparr>],
      payroll = [],
      payroll_id_seq = 5\<rparr>"

definition sssBenefit :: Benefit where
  "sssBenefit = \<lparr>ben_id = 22, ben_employeeId = 101, ben_type = ''SSS'', ben_amount = 900,
                  ben_isTaxable = False, ben_appliesTo = ''2024-01'', ben_description = None\<rparr>"

text \<open>The records and rows that generation for \<open>2024-01\<close> yields on the example data.\<close>

definition anaRecord :: InsertPayroll where
  "anaRecord =
     \<lparr>pay_employeeId = 101, pay_payPeriod = ''2024-01'', pay_hoursWorked = 160,
      pay_overtimeHours = 10, pay_basePay = 80000, pay_overtimePay = 7500,
      pay_allowances = 0, pay_bonuses = 0, pay_grossPay = 87500,
      pay_sssDeduction = 3937.5, pay_philHealthDeduction = 3937.5,
      pay_pagIbigDeduction = 100, pay_taxDeduction = 0, pay_otherDeductions = 0,
      pay_totalDeductions = 7975, pay_netPay = 79525\<rparr>"

definition benRecord :: InsertPayroll where
  "benRecord =
     \<lparr>pay_employeeId = 102, pay_payPeriod = ''2024-01'', pay_hoursWorked = 8,
      pay_overtimeHours = 2, pay_basePay = 30000, pay_overtimePay = 0,
      pay_allowances = 2000, pay_bonuses = 0, pay_grossPay = 32000,
      pay_sssDeduction = 1440, pay_philHealthDeduction = 1440,
      pay_pagIbigDeduction = 100, pay_taxDeduction = 0, pay_otherDeductions = 0,
      pay_totalDeductions = 2980, pay_netPay = 29020\<rparr>"

definition anaRow :: Payroll where
  "anaRow = InsertPayroll.extend anaRecord (Payroll.fields 5)"

definition benRow :: Payroll where
  "benRow = InsertPayroll.extend benRecord (Payroll.fields 6)"

section \<open>Basic facts\<close>

lemma payrollLoop_map:
  "payrollLoop inMonth payPeriod d es acc = acc @ map (payrollRecord inMonth payPeriod d) es"
  by (induction es arbitrary: acc) simp_all













lemma generate_snd:
  "snd (generatePayrollForPeriod inMonth payPeriod d)
     = d\<lparr>payroll := payroll d @ fst (generatePayrollForPeriod inMonth payPeriod d),
         payroll_id_seq := payroll_id_seq d + length (getEmployees d)\<rparr>"
  by (simp add: generatePayrollForPeriod_def insertPayroll_def Let_def payrollLoop_map)









lemma getBenefits_drop_row:
  assumes "\<not> P b"
  shows "filter P (getBenefits i p (d\<lparr>benefits := pre @ b # post\<rparr>))
           = filter P (getBenefits i p (d\<lparr>benefits := pre @ post\<rparr>))"
  using assms by (simp add: getBenefits_def)

lemma getMonthlyAttendance_benefits:
  "getMonthlyAttendance inMonth i p (d\<lparr>benefits := bs\<rparr>) = getMonthlyAttendance inMonth i p d"
  by (simp add: getMonthlyAttendance_def)

lemma payrollRecord_drop_row:
  assumes "ben_type b \<in> {''SSS'', ''PhilHealth'', ''Pag-IBIG''}"
  shows "payrollRecord inMonth p (d\<lparr>benefits := pre @ b # post\<rparr>) e
           = payrollRecord inMonth p (d\<lparr>benefits := pre @ post\<rparr>) e"
proof -
  have a: "\<not> (ben_type b = ''Allowance'')"
    and b: "\<not> (ben_type b \<in> set [''Bonus'', ''13th_month''])"
    and c: "\<not> (ben_type b = ''Deduction'')"
    using assms by auto
  show ?thesis
    unfolding payrollRecord_def Let_def getMonthlyAttendance_benefits
      getBenefits_drop_row[of "\<lambda>b. ben_type b = ''Allowance''", OF a]
      getBenefits_drop_row[of "\<lambda>b. ben_type b \<in> set [''Bonus'', ''13th_month'']", OF b]
      getBenefits_drop_row[of "\<lambda>b. ben_type b = ''Deduction''", OF c]
    by (rule refl)
qed

lemma find_deactivated:
  "find (\<lambda>e. emp_id e = i)
       (map (\<lambda>e. if emp_id e = i then e\<lparr>emp_isActive := False, emp_updatedAt := now\<rparr> else e) xs)
     = map_option (\<lambda>e. e\<lparr>emp_isActive := False, emp_updatedAt := now\<rparr>)
         (find (\<lambda>e. emp_id e = i) xs)"
  by (induction xs) simp_all


section \<open>The example data, evaluated\<close>

lemma example_active: "getEmployees exampleDb = [ana, ben]"
  by (simp add: getEmployees_def exampleDb_def ana_def ben_def cora_def)

lemma example_attendance:
  "getMonthlyAttendance monthPrefix 101 ''2024-01'' exampleDb
     = \<lparr>totalHours = 160, overtimeHours = 10\<rparr>"
  "getMonthlyAttendance monthPrefix 102 ''2024-01'' exampleDb
     = \<lparr>totalHours = 8, overtimeHours = 2\<rparr>"
  by (simp_all add: getMonthlyAttendance_def exampleDb_def monthPrefix_def)

lemma example_benefits:
  "getBenefits (Some 101) (Some ''2024-01'') exampleDb = []"
  "getBenefits (Some 102) (Some ''2024-01'') exampleDb
     = [\<lparr>ben_id = 21, ben_employeeId = 102, ben_type = ''Allowance'', ben_amount = 2000,
          ben_isTaxable = False, ben_appliesTo = ''2024-01'', ben_description = None\<rparr>]"
  by (simp_all add: getBenefits_def exampleDb_def)

lemma example_seq: "payroll_id_seq exampleDb = 5"
  by (simp add: exampleDb_def)

lemma example_records:
  "payrollRecord monthPrefix ''2024-01'' exampleDb ana = anaRecord"
  "payrollRecord monthPrefix ''2024-01'' exampleDb ben = benRecord"
  by (simp_all add: payrollRecord_def ana_def ben_def example_attendance example_benefits
      sum_amounts_def anaRecord_def benRecord_def Let_def)

lemma example_rows:
  "fst (generatePayrollForPeriod monthPrefix ''2024-01'' exampleDb) = [anaRow, benRow]"
  by (simp add: generatePayrollForPeriod_def example_active example_records insertPayroll_def
      example_seq Let_def anaRow_def benRow_def)


lemma ana_fields:
  "emp_id ana = 101" "emp_salaryType ana = ''hourly''" "emp_salaryRate ana = 500"
  "emp_isActive ana"
  by (simp_all add: ana_def)

lemma ben_fields:
  "emp_id ben = 102" "emp_salaryType ben = ''monthly''" "emp_salaryRate ben = 30000"
  "emp_isActive ben"
  by (simp_all add: ben_def)




lemma cora_fields: "emp_id cora = 103" "\<not> emp_isActive cora"
  by (simp_all add: cora_def)

lemma example_payroll_empty: "payroll exampleDb = []"
  by (simp add: exampleDb_def)

section \<open>Payroll computation\<close>









text \<open>
  Claim C10. A benefit row of type \<open>SSS\<close>, \<open>PhilHealth\<close> or \<open>Pag-IBIG\<close> has no effect
  on generation: with the row or without it, anywhere in the benefits table, the same
  payroll rows are returned, for every employee and period.
\<close>

theorem statutory_benefit_rows_ignored:
  assumes "ben_type b \<in> {''SSS'', ''PhilHealth'', ''Pag-IBIG''}"
  shows "fst (generatePayrollForPeriod inMonth payPeriod (d\<lparr>benefits := pre @ b # post\<rparr>))
           = fst (generatePayrollForPeriod inMonth payPeriod (d\<lparr>benefits := pre @ post\<rparr>))
       \<and> payroll (snd (generatePayrollForPeriod inMonth payPeriod (d\<lparr>benefits := pre @ b # post\<rparr>)))
           = payroll (snd (generatePayrollForPeriod inMonth payPeriod (d\<lparr>benefits := pre @ post\<rparr>)))"
proof -
  have "payrollRecord inMonth payPeriod (d\<lparr>benefits := pre @ b # post\<rparr>)
          = payrollRecord inMonth payPeriod (d\<lparr>benefits := pre @ post\<rparr>)"
    by (rule ext) (rule payrollRecord_drop_row[OF assms])
  then show ?thesis
    by (simp add: generatePayrollForPeriod_def insertPayroll_def getEmployees_def Let_def
        payrollLoop_map)
qed

theorem statutory_benefit_rows_ignored_witness:
  "ben_type sssBenefit \<in> {''SSS'', ''PhilHealth'', ''Pag-IBIG''}
     \<and> fst (generatePayrollForPeriod monthPrefix ''2024-01''
              (exampleDb\<lparr>benefits := [] @ sssBenefit # benefits exampleDb\<rparr>))
         = [anaRow, benRow]"
proof -
  have h: "ben_type sssBenefit \<in> {''SSS'', ''PhilHealth'', ''Pag-IBIG''}"
    by (simp add: sssBenefit_def)
  show ?thesis
    using h statutory_benefit_rows_ignored[OF h, where inMonth = monthPrefix
        and payPeriod = "''2024-01''" and d = exampleDb and pre = "[]"
        and post = "benefits exampleDb"]
    by (simp add: example_rows)
qed

section \<open>Effects of generation on the store\<close>






section \<open>Deleting an employee\<close>

text \<open>
  Claim C9. \<open>deleteEmployee\<close> is a soft delete. No employee row is removed and no
  column other than \<open>isActive\<close> and the bookkeeping timestamp \<open>updatedAt\<close> changes:
  rows with another id are untouched, the row with the id gets \<open>isActive = false\<close>
  and is still found by \<open>getEmployee\<close>. The attendance, payroll and benefits tables
  are unchanged.
\<close>

theorem deleteEmployee_is_soft:
  "map (\<lambda>e. (emp_id e, emp_name e, emp_email e, emp_position e, emp_salaryRate e,
               emp_salaryType e, emp_department e, emp_hireDate e))
       (employees (deleteEmployee now i d))
     = map (\<lambda>e. (emp_id e, emp_name e, emp_email e, emp_position e, emp_salaryRate e,
                 emp_salaryType e, emp_department e, emp_hireDate e))
         (employees d)
   \<and> list_all2
        (\<lambda>e e'. e' = (if emp_id e = i then e\<lparr>emp_isActive := False, emp_updatedAt := now\<rparr> else e))
        (employees d) (employees (deleteEmployee now i d))
   \<and> getEmployee i (deleteEmployee now i d)
       = map_option (\<lambda>e. e\<lparr>emp_isActive := False, emp_updatedAt := now\<rparr>) (getEmployee i d)
   \<and> attendance (deleteEmployee now i d) = attendance d
   \<and> payroll (deleteEmployee now i d) = payroll d
   \<and> benefits (deleteEmployee now i d) = benefits d"
proof -
  have "getEmployee i (deleteEmployee now i d)
       = map_option (\<lambda>e. e\<lparr>emp_isActive := False, emp_updatedAt := now\<rparr>) (getEmployee i d)"
    by (simp add: getEmployee_def deleteEmployee_def find_deactivated)
  then show ?thesis
    by (simp add: deleteEmployee_def list_all2_map2 list_all2_same)
qed

theorem deleteEmployee_is_soft_witness:
  "employees (deleteEmployee 7 101
       (snd (generatePayrollForPeriod monthPrefix ''2024-01'' exampleDb)))
     = [ana\<lparr>emp_isActive := False, emp_updatedAt := 7\<rparr>, ben, cora]
   \<and> payroll (deleteEmployee 7 101
       (snd (generatePayrollForPeriod monthPrefix ''2024-01'' exampleDb)))
     = [anaRow, benRow]
   \<and> attendance (deleteEmployee 7 101
       (snd (generatePayrollForPeriod monthPrefix ''2024-01'' exampleDb)))
     = attendance exampleDb"
proof -
  let ?d = "snd (generatePayrollForPeriod monthPrefix ''2024-01'' exampleDb)"
  note T = deleteEmployee_is_soft[of 7 101 ?d]
  have emp: "employees ?d = [ana, ben, cora]"
    by (simp add: generate_snd exampleDb_def)
  have pay: "payroll ?d = [anaRow, benRow]"
    by (simp add: generate_snd example_rows example_payroll_empty)
  have att: "attendance ?d = attendance exampleDb"
    by (simp add: generate_snd)
  from T have "list_all2
        (\<lambda>e e'. e' = (if emp_id e = 101 then e\<lparr>emp_isActive := False, emp_updatedAt := 7\<rparr> else e))
        (employees ?d) (employees (deleteEmployee 7 101 ?d))"
    by blast
  then have e: "employees (deleteEmployee 7 101 ?d)
     = [ana\<lparr>emp_isActive := False, emp_updatedAt := 7\<rparr>, ben, cora]"
    unfolding emp by (simp add: list_all2_Cons1 ana_fields ben_fields cora_fields)
  from T pay have p: "payroll (deleteEmployee 7 101 ?d) = [anaRow, benRow]" by simp
  from T att have a: "attendance (deleteEmployee 7 101 ?d) = attendance exampleDb" by simp
  from e p a show ?thesis by blast
qed

section \<open>Validation of the pay period by the route\<close>




end
